theory Spec2Isabelle
  imports Main "HOL-Library.AList"
begin

unbundle bit_operations_syntax

section \<open>The watch layer of \<^verbatim>\<open>inotify/newwatcher.py\<close>\<close>

text \<open>
  The module is embedded function by function. Python objects that are shared and mutated
  (\<^verbatim>\<open>_Watch\<close> objects, reached both from \<^verbatim>\<open>Watcher._paths\<close> and from the callbacks held by
  the descriptors) live in an explicit store inside the watcher state; dictionaries are
  association lists; every \<^verbatim>\<open>raise\<close> is a value \<open>Inl e\<close>. A method that mutates the watcher
  and may raise returns the watcher it leaves behind together with its result, because the
  effects made before an exception stay.
\<close>

subsection \<open>Exceptions\<close>

datatype errno = EINVAL | ENOENT | ENOTDIR | EACCES | ENOSPC | EAGAIN

text \<open>
  What Python raises: \<open>OSError\<close> with its \<^verbatim>\<open>errno\<close>, and \<open>NameError\<close>, \<open>AttributeError\<close>,
  \<open>TypeError\<close> and \<open>KeyError\<close> for a name that is not bound, a missing attribute, a call
  with too few arguments and a missing dictionary key.

  The module raises \<^verbatim>\<open>InotifyWatcherException\<close> (line 257) and \<^verbatim>\<open>NoFilesException\<close>
  (line 206) by name, and neither defines nor imports either name (its imports are lines 29
  to 39): evaluating the name raises \<open>NameError\<close>, before the exception object is made.
\<close>

datatype error =
    OSError errno
  | NameError string
  | AttributeError string
  | TypeError string
  | KeyError int

subsection \<open>Strings and paths (\<^verbatim>\<open>str.split\<close>, \<^verbatim>\<open>posixpath\<close>)\<close>

definition sep :: char where
  "sep = CHR ''/''"

text \<open>\<^verbatim>\<open>s.split(path.sep)\<close>: one piece more than there are separators, empty pieces kept.\<close>

fun str_split :: "string \<Rightarrow> string list" where
  "str_split [] = [[]]"
| "str_split (c # cs) =
     (if c = sep then [] # str_split cs
      else (case str_split cs of [] \<Rightarrow> [[c]] | x # xs \<Rightarrow> (c # x) # xs))"

text \<open>\<^verbatim>\<open>head.rstrip(sep)\<close>.\<close>

definition rstrip_sep :: "string \<Rightarrow> string" where
  "rstrip_sep s = rev (dropWhile (\<lambda>c. c = sep) (rev s))"

text \<open>
  \<^verbatim>\<open>posixpath.split(p)\<close>: \<^verbatim>\<open>i = p.rfind(sep) + 1; head, tail = p[:i], p[i:]\<close>, and the
  trailing separators of \<^verbatim>\<open>head\<close> are stripped unless \<^verbatim>\<open>head\<close> is made of separators only.
\<close>

definition path_split :: "string \<Rightarrow> string \<times> string" where
  "path_split p =
     (let tail = rev (takeWhile (\<lambda>c. c \<noteq> sep) (rev p));
          head = rev (dropWhile (\<lambda>c. c \<noteq> sep) (rev p))
      in (if head \<noteq> [] \<and> head \<noteq> replicate (length head) sep then rstrip_sep head else head,
          tail))"

definition path_dirname :: "string \<Rightarrow> string" where
  "path_dirname p = fst (path_split p)"

definition startswith_sep :: "string \<Rightarrow> bool" where
  "startswith_sep b = (case b of [] \<Rightarrow> False | c # _ \<Rightarrow> c = sep)"

definition endswith_sep :: "string \<Rightarrow> bool" where
  "endswith_sep p = (p \<noteq> [] \<and> last p = sep)"

text \<open>\<^verbatim>\<open>posixpath.join(a, *p)\<close>, the loop over \<^verbatim>\<open>p\<close> with the accumulated \<^verbatim>\<open>path\<close>.\<close>

fun path_join :: "string \<Rightarrow> string list \<Rightarrow> string" where
  "path_join path [] = path"
| "path_join path (b # p) =
     path_join
       (if startswith_sep b then b
        else if path = [] \<or> endswith_sep path then path @ b
        else path @ [sep] @ b) p"

text \<open>
  \<^verbatim>\<open>path.join(*xs)\<close>: \<^verbatim>\<open>join\<close> has one required positional parameter, so unpacking an empty
  list into the call raises \<^verbatim>\<open>TypeError\<close>.
\<close>

definition path_join_star :: "string list \<Rightarrow> error + string" where
  "path_join_star xs =
     (case xs of
        [] \<Rightarrow> Inl (TypeError ''join() missing 1 required positional argument'')
      | a # p \<Rightarrow> Inr (path_join a p))"

text \<open>
  \<^verbatim>\<open>os.join(a, b)\<close> (line 248): the module \<^verbatim>\<open>os\<close> has no attribute \<^verbatim>\<open>join\<close> (the path
  functions are in \<^verbatim>\<open>os.path\<close>, bound to \<^verbatim>\<open>path\<close> in this file), so evaluating the call
  raises \<^verbatim>\<open>AttributeError\<close> whatever the arguments are.
\<close>

definition os_join :: "string \<Rightarrow> string \<Rightarrow> error + string" where
  "os_join a b = Inl (AttributeError ''module os has no attribute join'')"

subsection \<open>The flag table and the synthetic flag\<close>

text \<open>
  The attributes of the low-level module \<^verbatim>\<open>_inotify\<close> that the file reads. Their values are
  the collaborator's; \<open>IN_LINK_CHANGED\<close> is the attribute the file itself adds at import.
\<close>

record inotify_module =
  IN_MODIFY :: int
  IN_MOVE :: int
  IN_CREATE :: int
  IN_DELETE :: int
  IN_DELETE_SELF :: int
  IN_MOVE_SELF :: int
  IN_IGNORED :: int
  IN_ONLYDIR :: int
  IN_LINK_CHANGED :: int

text \<open>
  \<^verbatim>\<open>functools.reduce(operator.or_, constants.values())\<close>: without an initial value,
  \<^verbatim>\<open>reduce\<close> of an empty sequence raises \<^verbatim>\<open>TypeError\<close>.
\<close>

definition inotify_builtin_constants :: "(string \<times> int) list \<Rightarrow> error + int" where
  "inotify_builtin_constants constants =
     (case map snd constants of
        [] \<Rightarrow> Inl (TypeError ''reduce() of empty sequence with no initial value'')
      | c # cs \<Rightarrow> Inr (foldl (OR) c cs))"

text \<open>
  Lines 81 to 83: \<^verbatim>\<open>x = 1; while x < builtin: x <<= 1\<close>. Not returning is the value
  \<open>None\<close>.
\<close>

partial_function (option) shift_until :: "int \<Rightarrow> int \<Rightarrow> int option" where
  "shift_until x builtin =
     (if x < builtin then shift_until (push_bit 1 x) builtin else Some x)"

declare shift_until.simps [code]

definition link_changed_bit :: "int \<Rightarrow> int option" where
  "link_changed_bit builtin = shift_until 1 builtin"

text \<open>Line 84: \<^verbatim>\<open>constants['IN_LINK_CHANGED'] = inotify.IN_LINK_CHANGED\<close>, after lines 80 to 83.\<close>

definition startup ::
  "(string \<times> int) list \<Rightarrow> inotify_module \<Rightarrow> (error + (string \<times> int) list \<times> inotify_module) option" where
  "startup constants inotify =
     (case inotify_builtin_constants constants of
        Inl e \<Rightarrow> Some (Inl e)
      | Inr builtin \<Rightarrow>
          (case link_changed_bit builtin of
             None \<Rightarrow> None
           | Some b \<Rightarrow>
               Some (Inr (AList.update ''IN_LINK_CHANGED'' b constants,
                          inotify\<lparr>IN_LINK_CHANGED := b\<rparr>))))"

subsection \<open>Events\<close>

text \<open>A raw event of the collaborator; \<^verbatim>\<open>semirawevent\<close> has the same four fields.\<close>

record rawevent =
  raw_mask :: int
  raw_cookie :: int
  raw_name :: "string option"
  raw_wd :: int

record Event =
  ev_raw :: rawevent
  ev_path :: string
  ev_mask :: int
  ev_cookie :: int
  ev_name :: "string option"

definition Event_init :: "rawevent \<Rightarrow> string \<Rightarrow> Event" where
  "Event_init raw pth =
     \<lparr>ev_raw = raw, ev_path = pth, ev_mask = raw_mask raw, ev_cookie = raw_cookie raw,
      ev_name = raw_name raw\<rparr>"





subsection \<open>Objects and the watcher state\<close>

text \<open>
  A callback is the bound method \<^verbatim>\<open>handle_event\<close> of a \<^verbatim>\<open>_Link\<close>: it is determined by the
  link's owning watch object and the link's \<^verbatim>\<open>idx\<close>, the only attributes it reads.
\<close>

datatype callback = Link_handle_event nat nat

record Link =
  lk_idx :: nat
  lk_watch :: nat
  lk_mask :: int
  lk_path :: string
  lk_name :: "string option"
  lk_wd :: int

record Descriptor =
  d_wd :: int
  d_mask :: int
  d_callbacks :: "(int \<times> string option \<times> callback) list"

record Watch =
  w_path :: "string list"
  w_cwd :: string
  w_mask :: int
  w_links :: "Link list"
  w_inode :: "(nat \<times> nat) option"

text \<open>
  \<open>heap\<close> is the store of \<^verbatim>\<open>_Watch\<close> objects, an object's identity being its position;
  \<open>lowreads\<close> counts the calls of \<^verbatim>\<open>inotify.read\<close> made on \<^verbatim>\<open>fd\<close> so far.
\<close>

record Watcher =
  fd :: int
  watchdescriptors :: "(int \<times> Descriptor) list"
  paths :: "(string \<times> nat) list"
  buffer :: "Event list"
  heap :: "Watch list"
  lowreads :: nat

text \<open>
  What the operating system and the collaborator answer: \<^verbatim>\<open>os.readlink\<close>, \<^verbatim>\<open>os.stat\<close>
  (device and inode), \<^verbatim>\<open>os.getcwd\<close>, \<^verbatim>\<open>inotify.init\<close>, \<^verbatim>\<open>inotify.add_watch\<close> on the
  watcher's descriptor, and the result of the \<open>n\<close>-th \<^verbatim>\<open>inotify.read\<close> for a buffer size.
  The file system stays as it is during one call of \<^verbatim>\<open>add\<close>.
\<close>

record os_env =
  readlink :: "string \<Rightarrow> errno + string"
  stat :: "string \<Rightarrow> errno + nat \<times> nat"
  getcwd :: string
  init :: int
  add_watch :: "string \<Rightarrow> int \<Rightarrow> errno + int"
  inotify_read :: "nat \<Rightarrow> int option \<Rightarrow> errno + rawevent list"

definition Watcher_init :: "os_env \<Rightarrow> Watcher" where
  "Watcher_init env =
     \<lparr>fd = init env, watchdescriptors = [], paths = [], buffer = [], heap = [], lowreads = 0\<rparr>"

subsection \<open>\<^verbatim>\<open>_Descriptor\<close>\<close>

definition Descriptor_init :: "int \<Rightarrow> Descriptor" where
  "Descriptor_init wd = \<lparr>d_wd = wd, d_mask = 0, d_callbacks = []\<rparr>"

definition add_callback ::
  "Descriptor \<Rightarrow> string \<Rightarrow> int \<Rightarrow> string option \<Rightarrow> callback \<Rightarrow> Descriptor" where
  "add_callback self pth msk name cb =
     self\<lparr>d_mask := d_mask self OR msk, d_callbacks := d_callbacks self @ [(msk, name, cb)]\<rparr>"

subsection \<open>\<^verbatim>\<open>Watcher._createwatch\<close>, \<^verbatim>\<open>Watcher._removewatch\<close> and \<^verbatim>\<open>_Link\<close>\<close>

definition Watcher_createwatch ::
  "os_env \<Rightarrow> Watcher \<Rightarrow> string \<Rightarrow> string option \<Rightarrow> int \<Rightarrow> callback \<Rightarrow> Watcher \<times> (error + int)" where
  "Watcher_createwatch env self pth name msk cb =
     (case add_watch env pth msk of
        Inl e \<Rightarrow> (self, Inl (OSError e))
      | Inr wd \<Rightarrow>
          (let d = (case map_of (watchdescriptors self) wd of
                      None \<Rightarrow> Descriptor_init wd
                    | Some d \<Rightarrow> d)
           in (self\<lparr>watchdescriptors :=
                      AList.update wd (add_callback d pth msk name cb) (watchdescriptors self)\<rparr>,
               Inr wd)))"

definition Watcher_removewatch :: "Watcher \<Rightarrow> Descriptor \<Rightarrow> Watcher \<times> (error + unit)" where
  "Watcher_removewatch self descriptor =
     (case map_of (watchdescriptors self) (d_wd descriptor) of
        None \<Rightarrow> (self, Inl (KeyError (d_wd descriptor)))
      | Some _ \<Rightarrow>
          (self\<lparr>watchdescriptors := AList.delete (d_wd descriptor) (watchdescriptors self)\<rparr>,
           Inr ()))"

definition Link_init ::
  "os_env \<Rightarrow> Watcher \<Rightarrow> nat \<Rightarrow> nat \<Rightarrow> int \<Rightarrow> string \<Rightarrow> string option \<Rightarrow> Watcher \<times> (error + Link)" where
  "Link_init env watcher idx watch msk pth name =
     (case Watcher_createwatch env watcher pth name msk (Link_handle_event watch idx) of
        (watcher', Inl e) \<Rightarrow> (watcher', Inl e)
      | (watcher', Inr wd) \<Rightarrow>
          (watcher',
           Inr \<lparr>lk_idx = idx, lk_watch = watch, lk_mask = msk, lk_path = pth, lk_name = name,
                lk_wd = wd\<rparr>))"

subsection \<open>\<^verbatim>\<open>_Watch\<close>\<close>

definition normpath :: "string \<Rightarrow> string list" where
  "normpath pth = filter (\<lambda>p. p \<noteq> [] \<and> p \<noteq> ''.'') (str_split pth)"

definition nonrel :: "Watch \<Rightarrow> string \<Rightarrow> string" where
  "nonrel self pth = path_join (w_cwd self) [pth]"

text \<open>\<^verbatim>\<open>self.links.append(l)\<close> on the watch object \<open>wid\<close> of the store.\<close>

definition links_append :: "Watcher \<Rightarrow> nat \<Rightarrow> Link \<Rightarrow> Watcher" where
  "links_append watcher wid l =
     watcher\<lparr>heap := (heap watcher)
        [wid := (heap watcher ! wid)\<lparr>w_links := w_links (heap watcher ! wid) @ [l]\<rparr>]\<rparr>"

definition set_inode :: "Watcher \<Rightarrow> nat \<Rightarrow> nat \<times> nat \<Rightarrow> Watcher" where
  "set_inode watcher wid i =
     watcher\<lparr>heap := (heap watcher)[wid := (heap watcher ! wid)\<lparr>w_inode := Some i\<rparr>]\<rparr>"

definition addleaf ::
  "inotify_module \<Rightarrow> os_env \<Rightarrow> Watcher \<Rightarrow> nat \<Rightarrow> string \<Rightarrow> Watcher \<times> (error + unit)" where
  "addleaf inotify env watcher wid pth =
     (let self = heap watcher ! wid;
          msk = w_mask self OR IN_MOVE_SELF inotify OR IN_DELETE_SELF inotify
      in case Link_init env watcher (length (w_links self)) wid msk pth None of
           (watcher1, Inl e) \<Rightarrow> (watcher1, Inl e)
         | (watcher1, Inr l) \<Rightarrow>
             (let watcher2 = links_append watcher1 wid l
              in case stat env pth of
                   Inl e \<Rightarrow> (watcher2, Inl (OSError e))
                 | Inr st \<Rightarrow> (set_inode watcher2 wid st, Inr ())))"

definition addlink ::
  "inotify_module \<Rightarrow> os_env \<Rightarrow> Watcher \<Rightarrow> nat \<Rightarrow> string \<Rightarrow> Watcher \<times> (error + unit)" where
  "addlink inotify env watcher wid pth0 =
     (let self = heap watcher ! wid;
          (pth, name) = path_split pth0;
          msk = IN_MOVE inotify OR IN_DELETE inotify OR IN_CREATE inotify OR IN_ONLYDIR inotify
      in case Link_init env watcher (length (w_links self)) wid msk pth (Some name) of
           (watcher1, Inl e) \<Rightarrow> (watcher1, Inl e)
         | (watcher1, Inr l) \<Rightarrow> (links_append watcher1 wid l, Inr ()))"

text \<open>
  How the loop of \<^verbatim>\<open>_Watch.add\<close> ends when it does not raise: \<^verbatim>\<open>break\<close> with the current
  path, or \<^verbatim>\<open>return\<close>.
\<close>

datatype loop_exit = Break string | Return

text \<open>
  The handler \<^verbatim>\<open>except OSError as e\<close> (lines 250 to 260). \<^verbatim>\<open>os.errno\<close> is read as the
  module \<^verbatim>\<open>errno\<close>, which is what it is in the Python versions 3.3 to 3.6 that the file
  (it uses \<^verbatim>\<open>yield from\<close>) was written for.
\<close>

definition except_OSError :: "errno \<Rightarrow> string \<Rightarrow> nat \<Rightarrow> error + loop_exit" where
  "except_OSError e pth linkdepth =
     (if e = EINVAL then Inr (Break pth)
      else if e \<in> {ENOENT, ENOTDIR} then
        (if linkdepth = 0 then Inl (NameError ''InotifyWatcherException'')
         else Inr Return)
      else Inl (OSError e))"

text \<open>An exception raised inside the \<^verbatim>\<open>try\<close> block: only an \<^verbatim>\<open>OSError\<close> is caught.\<close>

definition except_clause :: "error \<Rightarrow> string \<Rightarrow> nat \<Rightarrow> error + loop_exit" where
  "except_clause err pth linkdepth =
     (case err of OSError e \<Rightarrow> except_OSError e pth linkdepth | _ \<Rightarrow> Inl err)"

text \<open>
  The loop \<^verbatim>\<open>while True\<close> of \<^verbatim>\<open>_Watch.add\<close> (lines 244 to 260), one call for one iteration.
  The iteration goes round only when \<^verbatim>\<open>os.join\<close> returns.
\<close>

function add_loop ::
  "inotify_module \<Rightarrow> os_env \<Rightarrow> Watcher \<Rightarrow> nat \<Rightarrow> string \<Rightarrow> nat \<Rightarrow> Watcher \<times> (error + loop_exit)" where
  "add_loop inotify env watcher wid pth linkdepth =
     (case readlink env pth of
        Inl e \<Rightarrow> (watcher, except_OSError e pth linkdepth)
      | Inr link \<Rightarrow>
          (case addlink inotify env watcher wid pth of
             (watcher1, Inl err) \<Rightarrow> (watcher1, except_clause err pth linkdepth)
           | (watcher1, Inr _) \<Rightarrow>
               (case os_join (path_dirname pth) link of
                  Inl err \<Rightarrow> (watcher1, except_clause err pth linkdepth)
                | Inr pth' \<Rightarrow> add_loop inotify env watcher1 wid pth' (linkdepth + 1))))"
  by pat_completeness auto
termination
  by (relation "{}") (simp_all add: os_join_def)

definition Watch_add ::
  "inotify_module \<Rightarrow> os_env \<Rightarrow> Watcher \<Rightarrow> nat \<Rightarrow> string \<Rightarrow> Watcher \<times> (error + unit)" where
  "Watch_add inotify env watcher wid pth =
     (case add_loop inotify env watcher wid pth 0 of
        (watcher1, Inl e) \<Rightarrow> (watcher1, Inl e)
      | (watcher1, Inr Return) \<Rightarrow> (watcher1, Inr ())
      | (watcher1, Inr (Break pth')) \<Rightarrow> addleaf inotify env watcher1 wid pth')"

text \<open>\<^verbatim>\<open>_Watch(watcher, pth, mask)\<close>: a new object in the store, then \<^verbatim>\<open>self.add(pth)\<close>.\<close>

definition Watch_init ::
  "inotify_module \<Rightarrow> os_env \<Rightarrow> Watcher \<Rightarrow> string \<Rightarrow> int \<Rightarrow> Watcher \<times> (error + nat)" where
  "Watch_init inotify env watcher pth msk =
     (let wid = length (heap watcher);
          self = \<lparr>w_path = normpath pth, w_cwd = getcwd env, w_mask = msk, w_links = [],
                  w_inode = None\<rparr>
      in case Watch_add inotify env (watcher\<lparr>heap := heap watcher @ [self]\<rparr>) wid pth of
           (watcher1, Inl e) \<Rightarrow> (watcher1, Inl e)
         | (watcher1, Inr _) \<Rightarrow> (watcher1, Inr wid))"

text \<open>
  \<^verbatim>\<open>self._paths[pth].update_mask(mask)\<close> (line 175): class \<^verbatim>\<open>_Watch\<close> derives from
  \<^verbatim>\<open>object\<close> and defines \<^verbatim>\<open>__init__\<close>, \<^verbatim>\<open>_normpath\<close>, \<^verbatim>\<open>_nonrel\<close>, \<^verbatim>\<open>add\<close>, \<^verbatim>\<open>addleaf\<close>,
  \<^verbatim>\<open>addlink\<close> and \<^verbatim>\<open>handle_event\<close>; it has no attribute \<^verbatim>\<open>update_mask\<close>, so the attribute
  lookup raises \<^verbatim>\<open>AttributeError\<close>.
\<close>

definition update_mask :: "Watch \<Rightarrow> int \<Rightarrow> error + Watch" where
  "update_mask self msk = Inl (AttributeError ''_Watch object has no attribute update_mask'')"

text \<open>
  \<^verbatim>\<open>_Watch.handle_event(event, pth)\<close>, a generator: the list of what it yields. Of the link
  \<^verbatim>\<open>pth\<close> it reads \<^verbatim>\<open>pth.idx\<close>. \<^verbatim>\<open>len(self.links) - 1\<close> is \<open>-1\<close> for an empty chain.
\<close>

definition Watch_handle_event ::
  "inotify_module \<Rightarrow> Watch \<Rightarrow> rawevent \<Rightarrow> nat \<Rightarrow> error + Event list" where
  "Watch_handle_event inotify self event idx =
     (if int idx = int (length (w_links self)) - 1 \<and> raw_mask event AND w_mask self \<noteq> 0
      then (case path_join_star (w_path self) of
              Inl e \<Rightarrow> Inl e
            | Inr p \<Rightarrow> Inr [Event_init event p])
      else (case path_join_star (w_path self) of
              Inl e \<Rightarrow> Inl e
            | Inr p \<Rightarrow>
                Inr [Event_init \<lparr>raw_mask = IN_LINK_CHANGED inotify, raw_cookie = 0,
                                 raw_name = None, raw_wd = raw_wd event\<rparr> p]))"

text \<open>Calling a callback: \<^verbatim>\<open>_Link.handle_event\<close> delegates to the owning watch object.\<close>

fun call :: "inotify_module \<Rightarrow> Watcher \<Rightarrow> callback \<Rightarrow> rawevent \<Rightarrow> error + Event list" where
  "call inotify watcher (Link_handle_event watch idx) event =
     Watch_handle_event inotify (heap watcher ! watch) event idx"

subsection \<open>\<^verbatim>\<open>_Descriptor.handle_event\<close>\<close>

text \<open>The loop over \<^verbatim>\<open>self.callbacks\<close>: everything the matching callbacks yield, in order.\<close>

fun run_callbacks ::
  "inotify_module \<Rightarrow> Watcher \<Rightarrow> rawevent \<Rightarrow> (int \<times> string option \<times> callback) list
     \<Rightarrow> error + Event list" where
  "run_callbacks inotify watcher event [] = Inr []"
| "run_callbacks inotify watcher event ((m, n, c) # cbs) =
     (if raw_mask event AND m \<noteq> 0 \<and> (n = None \<or> n = raw_name event)
      then (case call inotify watcher c event of
              Inl e \<Rightarrow> Inl e
            | Inr es \<Rightarrow>
                (case run_callbacks inotify watcher event cbs of
                   Inl e \<Rightarrow> Inl e
                 | Inr es' \<Rightarrow> Inr (es @ es')))
      else run_callbacks inotify watcher event cbs)"

definition Descriptor_handle_event ::
  "inotify_module \<Rightarrow> Watcher \<Rightarrow> Descriptor \<Rightarrow> rawevent \<Rightarrow> Watcher \<times> (error + Event list)" where
  "Descriptor_handle_event inotify watcher self event =
     (case run_callbacks inotify watcher event (d_callbacks self) of
        Inl e \<Rightarrow> (watcher, Inl e)
      | Inr es \<Rightarrow>
          if raw_mask event AND IN_IGNORED inotify \<noteq> 0
          then (case Watcher_removewatch watcher self of
                  (watcher1, Inl e) \<Rightarrow> (watcher1, Inl e)
                | (watcher1, Inr _) \<Rightarrow> (watcher1, Inr es))
          else (watcher, Inr es))"

subsection \<open>\<^verbatim>\<open>Watcher.add\<close> and \<^verbatim>\<open>Watcher.read\<close>\<close>

definition Watcher_add ::
  "inotify_module \<Rightarrow> os_env \<Rightarrow> Watcher \<Rightarrow> string \<Rightarrow> int \<Rightarrow> Watcher \<times> (error + nat)" where
  "Watcher_add inotify env self pth msk =
     (case (case map_of (paths self) pth of
              None \<Rightarrow> Inr self
            | Some wid \<Rightarrow>
                (case update_mask (heap self ! wid) msk of
                   Inl e \<Rightarrow> Inl e
                 | Inr w \<Rightarrow> Inr (self\<lparr>heap := (heap self)[wid := w]\<rparr>))) of
        Inl e \<Rightarrow> (self, Inl e)
      | Inr self1 \<Rightarrow>
          (case Watch_init inotify env self1 pth msk of
             (self2, Inl e) \<Rightarrow> (self2, Inl e)
           | (self2, Inr wid) \<Rightarrow> (self2\<lparr>paths := AList.update pth wid (paths self2)\<rparr>, Inr wid)))"

text \<open>The two nested \<^verbatim>\<open>for\<close> loops of \<^verbatim>\<open>read\<close> (lines 209 to 211).\<close>

fun dispatch ::
  "inotify_module \<Rightarrow> Watcher \<Rightarrow> rawevent list \<Rightarrow> Watcher \<times> (error + Event list)" where
  "dispatch inotify self [] = (self, Inr [])"
| "dispatch inotify self (evt # evts) =
     (case map_of (watchdescriptors self) (raw_wd evt) of
        None \<Rightarrow> (self, Inl (KeyError (raw_wd evt)))
      | Some d \<Rightarrow>
          (case Descriptor_handle_event inotify self d evt of
             (self1, Inl e) \<Rightarrow> (self1, Inl e)
           | (self1, Inr es) \<Rightarrow>
               (case dispatch inotify self1 evts of
                  (self2, Inl e) \<Rightarrow> (self2, Inl e)
                | (self2, Inr es') \<Rightarrow> (self2, Inr (es @ es')))))"

text \<open>
  \<^verbatim>\<open>Watcher.read(block, bufsize, store_events)\<close>. The result \<open>None\<close> is the bare
  \<^verbatim>\<open>return\<close> of line 214. Line 206 evaluates the unbound name \<^verbatim>\<open>NoFilesException\<close>.
\<close>

definition Watcher_read ::
  "inotify_module \<Rightarrow> os_env \<Rightarrow> Watcher \<Rightarrow> bool \<Rightarrow> int option \<Rightarrow> bool
     \<Rightarrow> Watcher \<times> (error + Event list option)" where
  "Watcher_read inotify env self block bufsize0 store_events =
     (if buffer self \<noteq> [] then (self\<lparr>buffer := []\<rparr>, Inr (Some (buffer self)))
      else
        (let bufsize = (if \<not> block then Some 0 else if bufsize0 = Some 0 then None else bufsize0)
         in if length (watchdescriptors self) = 0
            then (self, Inl (NameError ''NoFilesException''))
            else
              (let self0 = self\<lparr>lowreads := Suc (lowreads self)\<rparr>
               in case inotify_read env (lowreads self) bufsize of
                    Inl e \<Rightarrow> (self0, Inl (OSError e))
                  | Inr raws \<Rightarrow>
                      (case dispatch inotify self0 raws of
                         (self1, Inl e) \<Rightarrow> (self1, Inl e)
                       | (self1, Inr events) \<Rightarrow>
                           if store_events
                           then (self1\<lparr>buffer := buffer self1 @ events\<rparr>, Inr None)
                           else (self1, Inr (Some events))))))"

subsection \<open>Example data\<close>

text \<open>
  A collaborator with the flag values of Linux's \<^verbatim>\<open>sys/inotify.h\<close>, and
  \<open>IN_LINK_CHANGED\<close> as the startup code computes it from them.
\<close>

definition example_inotify :: inotify_module where
  "example_inotify =
     \<lparr>IN_MODIFY = 0x2, IN_MOVE = 0xC0, IN_CREATE = 0x100, IN_DELETE = 0x200,
      IN_DELETE_SELF = 0x400, IN_MOVE_SELF = 0x800, IN_IGNORED = 0x8000,
      IN_ONLYDIR = 0x1000000, IN_LINK_CHANGED = 0x100000000\<rparr>"

text \<open>
  A directory \<^verbatim>\<open>d\<close> with a regular file \<^verbatim>\<open>R\<close>, a symbolic link \<^verbatim>\<open>L\<close> to \<^verbatim>\<open>R\<close> and a
  symbolic link \<^verbatim>\<open>D\<close> to the missing entry \<^verbatim>\<open>gone\<close>; a regular file \<^verbatim>\<open>f\<close> in the working
  directory. The kernel numbers a watch by the length of its path. The first low-level read
  reports that the entry of watch 1 was deleted and that watch 1 was removed.
\<close>

definition example_env :: os_env where
  "example_env =
     \<lparr>readlink = (\<lambda>p. if p = ''d/L'' then Inr ''R''
                      else if p = ''d/D'' then Inr ''gone''
                      else if p \<in> {''d/R'', ''f'', ''./f'', ''.''} then Inl EINVAL
                      else Inl ENOENT),
      stat = (\<lambda>p. Inr (1, 2)),
      getcwd = ''/home'',
      init = 3,
      add_watch = (\<lambda>p m. Inr (int (length p))),
      inotify_read = (\<lambda>n b.
         if n = 0
         then Inr [\<lparr>raw_mask = 0x400, raw_cookie = 0, raw_name = None, raw_wd = 1\<rparr>,
                   \<lparr>raw_mask = 0x8000, raw_cookie = 0, raw_name = None, raw_wd = 1\<rparr>]
         else Inr [])\<rparr>"

text \<open>The watcher after \<^verbatim>\<open>add('f', IN_MODIFY)\<close> on a new watcher.\<close>

definition watching_f :: Watcher where
  "watching_f =
     fst (Watcher_add example_inotify example_env (Watcher_init example_env) ''f'' 0x2)"

text \<open>The same watcher after \<^verbatim>\<open>read(store_events=True)\<close>.\<close>

definition stale_watcher :: Watcher where
  "stale_watcher = fst (Watcher_read example_inotify example_env watching_f True None True)"

text \<open>The watcher after \<^verbatim>\<open>add('.', IN_CREATE)\<close> on a new watcher.\<close>

definition watching_dot :: Watcher where
  "watching_dot =
     fst (Watcher_add example_inotify example_env (Watcher_init example_env) ''.'' 0x100)"

text \<open>
  A flag table \<^verbatim>\<open>constants\<close> with the names and values of \<^verbatim>\<open>sys/inotify.h\<close>.
\<close>

definition example_constants :: "(string \<times> int) list" where
  "example_constants =
     [(''IN_ACCESS'', 0x1), (''IN_MODIFY'', 0x2), (''IN_ATTRIB'', 0x4),
      (''IN_CLOSE_WRITE'', 0x8), (''IN_CLOSE_NOWRITE'', 0x10), (''IN_OPEN'', 0x20),
      (''IN_MOVED_FROM'', 0x40), (''IN_MOVED_TO'', 0x80), (''IN_CREATE'', 0x100),
      (''IN_DELETE'', 0x200), (''IN_DELETE_SELF'', 0x400), (''IN_MOVE_SELF'', 0x800),
      (''IN_UNMOUNT'', 0x2000), (''IN_Q_OVERFLOW'', 0x4000), (''IN_IGNORED'', 0x8000),
      (''IN_CLOSE'', 0x18), (''IN_MOVE'', 0xC0), (''IN_ONLYDIR'', 0x1000000),
      (''IN_DONT_FOLLOW'', 0x2000000), (''IN_EXCL_UNLINK'', 0x4000000),
      (''IN_MASK_ADD'', 0x20000000), (''IN_ISDIR'', 0x40000000),
      (''IN_ONESHOT'', 0x80000000), (''IN_ALL_EVENTS'', 0xFFF)]"


text \<open>
  The same system when the first low-level read reports a modification of the entry of
  watch 1 and the later ones report nothing; the event \<^verbatim>\<open>read\<close> makes of that report.
\<close>

definition modify_env :: os_env where
  "modify_env =
     example_env\<lparr>inotify_read := (\<lambda>n b.
        if n = 0
        then Inr [\<lparr>raw_mask = 0x2, raw_cookie = 0, raw_name = None, raw_wd = 1\<rparr>]
        else Inr [])\<rparr>"

definition modify_event :: Event where
  "modify_event =
     \<lparr>ev_raw = \<lparr>raw_mask = 0x2, raw_cookie = 0, raw_name = None, raw_wd = 1\<rparr>,
      ev_path = ''f'', ev_mask = 0x2, ev_cookie = 0, ev_name = None\<rparr>"

section \<open>Properties\<close>

subsection \<open>The resolution loop\<close>

text \<open>
  Since \<^verbatim>\<open>os.join\<close> raises, one iteration of the loop never starts a second one.
\<close>

lemma add_loop_once:
  "add_loop inotify env watcher wid pth linkdepth =
     (case readlink env pth of
        Inl e \<Rightarrow> (watcher, except_OSError e pth linkdepth)
      | Inr link \<Rightarrow>
          (case addlink inotify env watcher wid pth of
             (watcher1, Inl err) \<Rightarrow> (watcher1, except_clause err pth linkdepth)
           | (watcher1, Inr _) \<Rightarrow>
               (watcher1, Inl (AttributeError ''module os has no attribute join''))))"
  by (simp add: os_join_def except_clause_def split: sum.splits prod.splits)

declare add_loop.simps [simp del]

lemmas model_defs =
  Watcher_add_def Watch_init_def Watch_add_def add_loop_once addleaf_def addlink_def
  Link_init_def Watcher_createwatch_def Descriptor_init_def add_callback_def links_append_def
  set_inode_def except_OSError_def except_clause_def update_mask_def normpath_def
  path_split_def rstrip_sep_def sep_def Watcher_init_def Watcher_read_def
  Descriptor_handle_event_def Watcher_removewatch_def Watch_handle_event_def Event_init_def
  path_join_star_def startswith_sep_def endswith_sep_def

lemma createwatch_fails:
  "Watcher_createwatch env self pth name msk cb = (self', Inl err) \<Longrightarrow>
     self' = self \<and> (\<exists>e. err = OSError e)"
  by (auto simp: Watcher_createwatch_def Let_def split: sum.splits)

lemma addlink_fails:
  "addlink inotify env watcher wid pth = (watcher1, Inl err) \<Longrightarrow>
     watcher1 = watcher \<and> (\<exists>e. err = OSError e)"
  by (auto simp: addlink_def Link_init_def Let_def split: sum.splits prod.splits
           dest: createwatch_fails)

text \<open>
  When the loop started at depth 0 ends without raising, it has changed nothing and has
  left by \<^verbatim>\<open>break\<close> at the path it was given.
\<close>

lemma add_loop_returns:
  assumes "add_loop inotify env watcher wid pth 0 = (watcher1, Inr x)"
  shows "watcher1 = watcher \<and> x = Break pth"
proof (cases "readlink env pth")
  case (Inl e)
  with assms show ?thesis
    by (auto simp: add_loop_once except_OSError_def split: if_splits)
next
  case (Inr link)
  obtain w r where al: "addlink inotify env watcher wid pth = (w, r)"
    by (cases "addlink inotify env watcher wid pth")
  show ?thesis
  proof (cases r)
    case (Inl err)
    with al have "w = watcher" and "\<exists>e. err = OSError e"
      using addlink_fails by blast+
    with assms Inr al Inl show ?thesis
      by (auto simp: add_loop_once except_clause_def except_OSError_def split: if_splits)
  next
    case (Inr u)
    with assms \<open>readlink env pth = Inr link\<close> al show ?thesis
      by (simp add: add_loop_once)
  qed
qed

lemma addleaf_returns:
  assumes "addleaf inotify env watcher wid pth = (watcher', Inr u)"
    and "wid < length (heap watcher)"
  shows "\<exists>wd st d.
           add_watch env pth
             (w_mask (heap watcher ! wid) OR IN_MOVE_SELF inotify OR IN_DELETE_SELF inotify) =
             Inr wd \<and>
           stat env pth = Inr st \<and>
           d = (case map_of (watchdescriptors watcher) wd of
                  None \<Rightarrow> Descriptor_init wd | Some d \<Rightarrow> d) \<and>
           watcher' = watcher
             \<lparr>watchdescriptors :=
                AList.update wd
                  (add_callback d pth
                     (w_mask (heap watcher ! wid) OR IN_MOVE_SELF inotify OR
                        IN_DELETE_SELF inotify)
                     None (Link_handle_event wid (length (w_links (heap watcher ! wid)))))
                  (watchdescriptors watcher),
              heap := (heap watcher)
                [wid := (heap watcher ! wid)
                   \<lparr>w_links := w_links (heap watcher ! wid) @
                      [\<lparr>lk_idx = length (w_links (heap watcher ! wid)), lk_watch = wid,
                        lk_mask = w_mask (heap watcher ! wid) OR IN_MOVE_SELF inotify OR
                          IN_DELETE_SELF inotify,
                        lk_path = pth, lk_name = None, lk_wd = wd\<rparr>],
                    w_inode := Some st\<rparr>]\<rparr>"
  using assms
  by (auto simp: addleaf_def Link_init_def Watcher_createwatch_def links_append_def
                 set_inode_def Let_def
           split: sum.splits prod.splits)

text \<open>What a call of \<^verbatim>\<open>Watcher.add\<close> that returns has done.\<close>

lemma Watcher_add_returns:
  assumes "Watcher_add inotify env self pth msk = (self', Inr wid)"
  shows "map_of (paths self) pth = None \<and> wid = length (heap self) \<and>
         (\<exists>wd st.
            add_watch env pth (msk OR IN_MOVE_SELF inotify OR IN_DELETE_SELF inotify) = Inr wd \<and>
            stat env pth = Inr st \<and>
            self' = self
              \<lparr>watchdescriptors :=
                 AList.update wd
                   (add_callback
                      (case map_of (watchdescriptors self) wd of
                         None \<Rightarrow> Descriptor_init wd | Some d \<Rightarrow> d)
                      pth (msk OR IN_MOVE_SELF inotify OR IN_DELETE_SELF inotify) None
                      (Link_handle_event wid 0))
                   (watchdescriptors self),
               paths := AList.update pth wid (paths self),
               heap := heap self @
                 [\<lparr>w_path = normpath pth, w_cwd = getcwd env, w_mask = msk,
                   w_links =
                     [\<lparr>lk_idx = 0, lk_watch = wid,
                       lk_mask = msk OR IN_MOVE_SELF inotify OR IN_DELETE_SELF inotify,
                       lk_path = pth, lk_name = None, lk_wd = wd\<rparr>],
                   w_inode = Some st\<rparr>]\<rparr>)"
proof -
  from assms have nopath: "map_of (paths self) pth = None"
    by (auto simp: Watcher_add_def update_mask_def split: option.splits)
  let ?w0 = "self\<lparr>heap := heap self @
                 [\<lparr>w_path = normpath pth, w_cwd = getcwd env, w_mask = msk, w_links = [],
                   w_inode = None\<rparr>]\<rparr>"
  from assms nopath obtain self2 where
    wi: "Watch_init inotify env self pth msk = (self2, Inr wid)" and
    s': "self' = self2\<lparr>paths := AList.update pth wid (paths self2)\<rparr>"
    by (auto simp: Watcher_add_def split: sum.splits prod.splits)
  from wi have wid: "wid = length (heap self)" and
    wa: "Watch_add inotify env ?w0 (length (heap self)) pth = (self2, Inr ())"
    by (auto simp: Watch_init_def Let_def split: sum.splits prod.splits)
  obtain w1 r where lp: "add_loop inotify env ?w0 (length (heap self)) pth 0 = (w1, r)"
    by (cases "add_loop inotify env ?w0 (length (heap self)) pth 0")
  from wa lp obtain x where r: "r = Inr x"
    by (cases r) (auto simp: Watch_add_def)
  from add_loop_returns [OF lp [unfolded r]] have w1: "w1 = ?w0" and x: "x = Break pth"
    by simp_all
  from wa lp r w1 x have
    "addleaf inotify env ?w0 (length (heap self)) pth = (self2, Inr ())"
    by (simp add: Watch_add_def)
  from addleaf_returns [OF this] s' wid nopath show ?thesis
    by auto
qed

subsection \<open>The example runs\<close>

lemma watching_f_eq:
  "Watcher_add example_inotify example_env (Watcher_init example_env) ''f'' 0x2 =
     (watching_f, Inr 0)"
  "watching_f =
     \<lparr>fd = 3,
      watchdescriptors =
        [(1, \<lparr>d_wd = 1, d_mask = 3074, d_callbacks = [(3074, None, Link_handle_event 0 0)]\<rparr>)],
      paths = [(''f'', 0)], buffer = [],
      heap =
        [\<lparr>w_path = [''f''], w_cwd = ''/home'', w_mask = 2,
          w_links =
            [\<lparr>lk_idx = 0, lk_watch = 0, lk_mask = 3074, lk_path = ''f'', lk_name = None,
              lk_wd = 1\<rparr>],
          w_inode = Some (1, 2)\<rparr>],
      lowreads = 0\<rparr>"
  by (simp_all add: watching_f_def model_defs example_env_def example_inotify_def)

lemma stale_watcher_eq:
  "stale_watcher =
     \<lparr>fd = 3, watchdescriptors = [], paths = [(''f'', 0)],
      buffer =
        [\<lparr>ev_raw = \<lparr>raw_mask = 4294967296, raw_cookie = 0, raw_name = None, raw_wd = 1\<rparr>,
          ev_path = ''f'', ev_mask = 4294967296, ev_cookie = 0, ev_name = None\<rparr>],
      heap =
        [\<lparr>w_path = [''f''], w_cwd = ''/home'', w_mask = 2,
          w_links =
            [\<lparr>lk_idx = 0, lk_watch = 0, lk_mask = 3074, lk_path = ''f'', lk_name = None,
              lk_wd = 1\<rparr>],
          w_inode = Some (1, 2)\<rparr>],
      lowreads = 1\<rparr>"
  by (simp add: stale_watcher_def watching_f_eq(2) model_defs example_env_def
        example_inotify_def)

subsection \<open>Claims\<close>

text \<open>
  C8. Whenever \<^verbatim>\<open>Watcher.add(pth, mask)\<close> returns a watch, the chain of the watch is not
  empty, its last link is the leaf (no name filter), and the leaf's mask is the requested
  mask joined with \<open>IN_MOVE_SELF\<close> and \<open>IN_DELETE_SELF\<close>, whatever the caller requested. This
  is the mask given to \<^verbatim>\<open>inotify.add_watch\<close> for the leaf's path and the mask registered
  with the leaf's callback in the descriptor.
\<close>

theorem leaf_mask_forced:
  assumes "Watcher_add inotify env self pth msk = (self', Inr wid)"
  shows "w_links (heap self' ! wid) \<noteq> [] \<and>
         lk_name (last (w_links (heap self' ! wid))) = None \<and>
         lk_mask (last (w_links (heap self' ! wid))) =
           msk OR IN_MOVE_SELF inotify OR IN_DELETE_SELF inotify \<and>
         add_watch env (lk_path (last (w_links (heap self' ! wid))))
           (msk OR IN_MOVE_SELF inotify OR IN_DELETE_SELF inotify) =
           Inr (lk_wd (last (w_links (heap self' ! wid)))) \<and>
         (\<exists>d. map_of (watchdescriptors self') (lk_wd (last (w_links (heap self' ! wid)))) =
                 Some d \<and>
               (msk OR IN_MOVE_SELF inotify OR IN_DELETE_SELF inotify, None,
                Link_handle_event wid (lk_idx (last (w_links (heap self' ! wid)))))
                 \<in> set (d_callbacks d))"
  using Watcher_add_returns [OF assms]
  by (auto simp: update_conv' add_callback_def)

theorem leaf_mask_forced_witness:
  "Watcher_add example_inotify example_env (Watcher_init example_env) ''f'' 0x2 =
     (watching_f, Inr 0) \<and>
   lk_name (last (w_links (heap watching_f ! 0))) = None \<and>
   lk_mask (last (w_links (heap watching_f ! 0))) = 0xC02"
  using leaf_mask_forced [OF watching_f_eq(1)] watching_f_eq(1)
  by (simp add: example_inotify_def)

text \<open>
  C10. When the pending buffer is not empty, \<^verbatim>\<open>read\<close> returns the buffered events and
  empties the buffer, whatever its arguments and whatever the registry of descriptors is;
  it does not raise, not even with an empty registry.
\<close>

theorem read_drains_buffer_first:
  "buffer self \<noteq> [] \<Longrightarrow>
   Watcher_read inotify env self block bufsize store_events =
     (self\<lparr>buffer := []\<rparr>, Inr (Some (buffer self)))"
  by (simp add: Watcher_read_def)

theorem read_drains_buffer_first_witness:
  "buffer stale_watcher \<noteq> [] \<and> watchdescriptors stale_watcher = [] \<and>
   Watcher_read example_inotify example_env stale_watcher True None False =
     (stale_watcher\<lparr>buffer := []\<rparr>, Inr (Some (buffer stale_watcher)))"
  using read_drains_buffer_first
    [of stale_watcher example_inotify example_env True None False]
  by (simp add: stale_watcher_eq)

text \<open>
  With an empty pending buffer and an empty registry of descriptors, \<^verbatim>\<open>read\<close> reaches
  line 206 and raises \<open>NameError\<close>; with a pending buffer it never reaches that line.
\<close>

lemma read_without_watches_raises:
  "buffer self = [] \<Longrightarrow> watchdescriptors self = [] \<Longrightarrow>
   Watcher_read inotify env self block bufsize store_events =
     (self, Inl (NameError ''NoFilesException''))"
  by (simp add: Watcher_read_def)

lemma read_with_stale_buffer:
  "watchdescriptors stale_watcher = [] \<and>
   snd (Watcher_read example_inotify example_env stale_watcher True None False) =
     Inr (Some
       [\<lparr>ev_raw = \<lparr>raw_mask = 0x100000000, raw_cookie = 0, raw_name = None, raw_wd = 1\<rparr>,
         ev_path = ''f'', ev_mask = 0x100000000, ev_cookie = 0, ev_name = None\<rparr>])"
  by (simp add: stale_watcher_eq Watcher_read_def)

text \<open>
  C4 fails on the code. A new watcher has an empty registry of descriptors (and an empty
  buffer); \<^verbatim>\<open>read(block=True)\<close> on it does fail, but with \<open>NameError\<close>, because the name
  \<^verbatim>\<open>NoFilesException\<close> of line 206 is not bound, and not with the exception for a watcher
  without watches.
\<close>

theorem read_of_new_watcher_raises:
  "watchdescriptors (Watcher_init example_env) = [] \<and>
   Watcher_read example_inotify example_env (Watcher_init example_env) True None False =
     (Watcher_init example_env, Inl (NameError ''NoFilesException''))"
  by (simp add: Watcher_read_def Watcher_init_def)

subsection \<open>What the resolution loop does with symbolic links\<close>

lemma add_single_link:
  "Watcher_add inotify env self pth msk = (self', Inr wid) \<Longrightarrow>
   length (w_links (heap self' ! wid)) = 1"
  by (auto dest!: Watcher_add_returns)

lemma addlink_returns:
  assumes "add_watch env (fst (path_split pth))
             (IN_MOVE inotify OR IN_DELETE inotify OR IN_CREATE inotify OR IN_ONLYDIR inotify) =
             Inr wd"
  shows "\<exists>w. addlink inotify env watcher wid pth = (w, Inr ())"
proof -
  obtain h t where sp: "path_split pth = (h, t)"
    by (cases "path_split pth")
  with assms show ?thesis
    by (simp add: addlink_def Link_init_def Watcher_createwatch_def Let_def)
qed

lemma add_symlink_never_returns:
  assumes "readlink env pth = Inr link"
    and "add_watch env (fst (path_split pth))
           (IN_MOVE inotify OR IN_DELETE inotify OR IN_CREATE inotify OR IN_ONLYDIR inotify) =
           Inr wd"
    and "map_of (paths self) pth = None"
  shows "snd (Watcher_add inotify env self pth msk) =
           Inl (AttributeError ''module os has no attribute join'')"
proof -
  let ?w0 = "self\<lparr>heap := heap self @
                 [\<lparr>w_path = normpath pth, w_cwd = getcwd env, w_mask = msk, w_links = [],
                   w_inode = None\<rparr>]\<rparr>"
  from addlink_returns [OF assms(2)] obtain w where
    "addlink inotify env ?w0 (length (heap self)) pth = (w, Inr ())"
    by blast
  with assms(1) have
    "add_loop inotify env ?w0 (length (heap self)) pth 0 =
       (w, Inl (AttributeError ''module os has no attribute join''))"
    by (simp add: add_loop_once)
  with assms(3) show ?thesis
    by (simp add: Watcher_add_def Watch_init_def Watch_add_def Let_def)
qed

lemma add_missing_path_raises:
  assumes "readlink env pth = Inl e" and "e = ENOENT \<or> e = ENOTDIR"
    and "map_of (paths self) pth = None"
  shows "snd (Watcher_add inotify env self pth msk) =
           Inl (NameError ''InotifyWatcherException'')"
  using assms
  by (auto simp: Watcher_add_def Watch_init_def Watch_add_def add_loop_once except_OSError_def)

text \<open>
  The handler tells depth 0 from the depths above it, but no run of \<^verbatim>\<open>add\<close> enters the
  loop body at a depth above 0; at depth 0 its \<^verbatim>\<open>raise\<close> of line 257 evaluates an unbound
  name.
\<close>

lemma handler_on_missing_entry:
  "readlink env pth = Inl ENOENT \<Longrightarrow>
   add_loop inotify env watcher wid pth linkdepth =
     (watcher,
      if linkdepth = 0 then Inl (NameError ''InotifyWatcherException'') else Inr Return)"
  by (simp add: add_loop_once except_OSError_def)

lemma return_only_below_depth_0:
  "add_loop inotify env watcher wid pth linkdepth = (watcher1, Inr Return) \<Longrightarrow> 0 < linkdepth"
  by (auto simp: add_loop_once except_OSError_def except_clause_def
           split: sum.splits prod.splits if_splits error.splits)

text \<open>
  C1 fails on the code. For the link \<^verbatim>\<open>d/L\<close> to the regular file \<^verbatim>\<open>d/R\<close> (one
  symbolic-link step), \<^verbatim>\<open>add\<close> registers the non-leaf link and then raises
  \<^verbatim>\<open>AttributeError\<close> at \<^verbatim>\<open>os.join\<close>: no watch with two links is returned.
\<close>

theorem add_symlink_raises:
  "readlink example_env ''d/L'' = Inr ''R'' \<and> readlink example_env ''d/R'' = Inl EINVAL \<and>
   snd (Watcher_add example_inotify example_env (Watcher_init example_env) ''d/L'' 0x2) =
     Inl (AttributeError ''module os has no attribute join'')"
  by (simp add: model_defs example_env_def example_inotify_def)

text \<open>
  C3 fails on the code at link depth above 0. For the link \<^verbatim>\<open>d/D\<close> whose target does
  not exist, \<^verbatim>\<open>add\<close> raises \<^verbatim>\<open>AttributeError\<close> at \<^verbatim>\<open>os.join\<close> before the target is ever
  read: it does not return a watch ending in a non-leaf link.
\<close>

theorem add_dangling_symlink_raises:
  "readlink example_env ''d/D'' = Inr ''gone'' \<and> readlink example_env ''d/gone'' = Inl ENOENT \<and>
   snd (Watcher_add example_inotify example_env (Watcher_init example_env) ''d/D'' 0x2) =
     Inl (AttributeError ''module os has no attribute join'')"
  by (simp add: model_defs example_env_def example_inotify_def)

lemma add_registered_path_raises:
  "map_of (paths self) pth = Some wid \<Longrightarrow>
   Watcher_add inotify env self pth msk =
     (self, Inl (AttributeError ''_Watch object has no attribute update_mask''))"
  by (simp add: Watcher_add_def update_mask_def)

text \<open>
  C2 fails on the code. A second \<^verbatim>\<open>add\<close> for a registered path raises
  \<^verbatim>\<open>AttributeError\<close> at \<^verbatim>\<open>update_mask\<close> and changes nothing: no mask is widened and
  the registry entry is not replaced.
\<close>

theorem add_twice_raises:
  "map_of (paths watching_f) ''f'' = Some 0 \<and>
   Watcher_add example_inotify example_env watching_f ''f'' 0x100 =
     (watching_f, Inl (AttributeError ''_Watch object has no attribute update_mask''))"
  by (simp add: watching_f_eq(2) Watcher_add_def update_mask_def)

subsection \<open>Event translation\<close>

text \<open>
  For a watch whose normalised path has a component, \<^verbatim>\<open>handle_event\<close> yields exactly one
  event: the raw event at the joined path when the link is the last of the chain and the
  masks intersect, the synthetic event otherwise.
\<close>

lemma handle_event_yields:
  assumes "w_path self \<noteq> []"
  shows "\<exists>p. path_join_star (w_path self) = Inr p \<and>
           Watch_handle_event inotify self event idx =
             Inr [if int idx = int (length (w_links self)) - 1 \<and>
                     raw_mask event AND w_mask self \<noteq> 0
                  then Event_init event p
                  else Event_init \<lparr>raw_mask = IN_LINK_CHANGED inotify, raw_cookie = 0,
                                   raw_name = None, raw_wd = raw_wd event\<rparr> p]"
  using assms
  by (cases "w_path self") (simp_all add: Watch_handle_event_def path_join_star_def)

lemma watching_dot_eq:
  "Watcher_add example_inotify example_env (Watcher_init example_env) ''.'' 0x100 =
     (watching_dot, Inr 0)"
  "heap watching_dot ! 0 = \<lparr>w_path = [], w_cwd = ''/home'', w_mask = 0x100,
          w_links =
            [\<lparr>lk_idx = 0, lk_watch = 0, lk_mask = 0xD00, lk_path = ''.'', lk_name = None,
              lk_wd = 1\<rparr>],
          w_inode = Some (1, 2)\<rparr>"
  by (simp_all add: watching_dot_def model_defs example_env_def example_inotify_def)

text \<open>
  C5 fails on the code. For the watch made by \<^verbatim>\<open>add('.', IN_CREATE)\<close> the normalised path
  is empty, and \<^verbatim>\<open>handle_event\<close> raises \<^verbatim>\<open>TypeError\<close> instead of yielding an event, both
  for an event that matches the requested mask on the last link and for one that does not.
\<close>

theorem handle_event_empty_path_raises:
  "Watcher_add example_inotify example_env (Watcher_init example_env) ''.'' 0x100 =
     (watching_dot, Inr 0) \<and>
   Watch_handle_event example_inotify (heap watching_dot ! 0)
     \<lparr>raw_mask = 0x100, raw_cookie = 0, raw_name = Some ''x'', raw_wd = 1\<rparr> 0 =
     Inl (TypeError ''join() missing 1 required positional argument'') \<and>
   Watch_handle_event example_inotify (heap watching_dot ! 0)
     \<lparr>raw_mask = 0x800, raw_cookie = 0, raw_name = None, raw_wd = 1\<rparr> 0 =
     Inl (TypeError ''join() missing 1 required positional argument'')"
  by (simp add: watching_dot_eq Watch_handle_event_def path_join_star_def)

subsection \<open>The synthetic flag\<close>

lemma foldl_or_bounds:
  "0 \<le> (a::int) \<Longrightarrow> list_all (\<lambda>c. 0 \<le> c) cs \<Longrightarrow>
   0 \<le> foldl (OR) a cs \<and> a \<le> foldl (OR) a cs \<and> list_all (\<lambda>c. c \<le> foldl (OR) a cs) cs"
proof (induction cs arbitrary: a)
  case Nil
  then show ?case by simp
next
  case (Cons c cs)
  then have c: "0 \<le> c" and cs: "list_all (\<lambda>c. 0 \<le> c) cs"
    by simp_all
  from Cons.prems(1) c have ac: "0 \<le> a OR c" "a \<le> a OR c" "c \<le> a OR c"
    using or_greater_eq [of c a] or_greater_eq [of a c] by (simp_all add: or.commute)
  from Cons.IH [OF ac(1) cs] ac show ?case
    by auto
qed

lemma builtin_bounds:
  assumes "inotify_builtin_constants constants = Inr builtin"
    and "list_all (\<lambda>c. 0 \<le> c) (map snd constants)"
  shows "0 \<le> builtin \<and> list_all (\<lambda>c. c \<le> builtin) (map snd constants)"
proof (cases "map snd constants")
  case Nil
  with assms show ?thesis by (simp add: inotify_builtin_constants_def)
next
  case (Cons c cs)
  with assms have b: "builtin = foldl (OR) c cs" and c: "0 \<le> c" and
    cs: "list_all (\<lambda>c. 0 \<le> c) cs"
    by (simp_all add: inotify_builtin_constants_def)
  from foldl_or_bounds [OF c cs] b Cons show ?thesis
    by simp
qed

lemma shift_until_pow:
  "builtin \<le> 2 ^ (j + d) \<Longrightarrow> j = 0 \<or> 2 ^ (j - 1) < builtin \<Longrightarrow>
   \<exists>n. shift_until (2 ^ j) builtin = Some (2 ^ n) \<and> builtin \<le> 2 ^ n \<and>
       (n = 0 \<or> 2 ^ (n - 1) < builtin)"
proof (induction d arbitrary: j)
  case 0
  then have "shift_until (2 ^ j) builtin = Some (2 ^ j)"
    by (subst shift_until.simps) simp
  with 0 show ?case by auto
next
  case (Suc d)
  show ?case
  proof (cases "2 ^ j < builtin")
    case True
    have "shift_until (2 ^ j) builtin = shift_until (2 ^ Suc j) builtin"
      using True by (subst shift_until.simps) (simp add: push_bit_eq_mult mult.commute)
    moreover from Suc.prems(1) have "builtin \<le> 2 ^ (Suc j + d)"
      by simp
    moreover have "Suc j = 0 \<or> 2 ^ (Suc j - 1) < builtin"
      using True by simp
    ultimately show ?thesis
      using Suc.IH [of "Suc j"] by simp
  next
    case False
    then have "shift_until (2 ^ j) builtin = Some (2 ^ j)"
      by (subst shift_until.simps) simp
    with False Suc.prems(2) show ?thesis
      by (intro exI [of _ j]) auto
  qed
qed

lemma link_changed_bit_least:
  "\<exists>n. link_changed_bit builtin = Some (2 ^ n) \<and> builtin \<le> 2 ^ n \<and>
       (n = 0 \<or> 2 ^ (n - 1) < builtin)"
proof -
  have "builtin \<le> 2 ^ (0 + nat builtin)"
  proof (cases "0 \<le> builtin")
    case True
    have "int (nat builtin) < 2 ^ nat builtin"
      by (rule of_nat_less_numeral_power_cancel_iff [THEN iffD2]) simp
    with True show ?thesis by simp
  next
    case False
    then have "builtin \<le> 0" by simp
    also have "(0::int) \<le> 2 ^ (0 + nat builtin)" by simp
    finally show ?thesis .
  qed
  from shift_until_pow [OF this] show ?thesis
    by (simp add: link_changed_bit_def)
qed

lemma and_pow_zero:
  assumes "0 \<le> c" and "c < 2 ^ n"
  shows "c AND 2 ^ n = (0::int)"
proof -
  from assms have "c div 2 ^ n = 0"
    by simp
  then have "\<not> bit c n"
    by (simp add: bit_iff_odd)
  then show ?thesis
    by (simp add: and_exp_eq_0_iff_not_bit)
qed

text \<open>
  A bit of the union is a bit of some flag of the table. So when the union is a power of
  two, every flag of the table is 0 or that power, and a table with two different non-zero
  flags has a union that is no power of two.
\<close>

lemma bit_foldl_or:
  "bit (foldl (OR) (a::int) cs) n \<longleftrightarrow> bit a n \<or> (\<exists>c\<in>set cs. bit c n)"
  by (induction cs arbitrary: a) (auto simp: bit_or_iff)

lemma flag_of_pow_union:
  assumes "inotify_builtin_constants constants = Inr (2 ^ k)"
    and "c \<in> set (map snd constants)"
  shows "c = 0 \<or> c = 2 ^ k"
proof -
  from assms obtain v vs where vs: "map snd constants = v # vs" and
    u: "foldl (OR) v vs = 2 ^ k"
    by (cases "map snd constants") (auto simp: inotify_builtin_constants_def)
  have only: "n = k" if "bit c n" for n
  proof -
    from that assms(2) vs have "bit (foldl (OR) v vs) n"
      by (auto simp: bit_foldl_or)
    with u show ?thesis
      by (simp add: bit_exp_iff)
  qed
  show ?thesis
  proof (cases "bit c k")
    case True
    have "c = 2 ^ k"
    proof (rule bit_eqI)
      fix n
      show "bit c n \<longleftrightarrow> bit ((2::int) ^ k) n"
        using True only [of n] by (auto simp: bit_exp_iff)
    qed
    then show ?thesis ..
  next
    case False
    have "c = 0"
    proof (rule bit_eqI)
      fix n
      show "bit c n \<longleftrightarrow> bit (0::int) n"
        using False only [of n] by auto
    qed
    then show ?thesis ..
  qed
qed

lemma distinct_flags_not_pow:
  assumes "inotify_builtin_constants constants = Inr builtin"
    and "a \<in> set (map snd constants)" and "b \<in> set (map snd constants)"
    and "a \<noteq> 0" and "b \<noteq> 0" and "a \<noteq> b"
  shows "builtin \<noteq> 2 ^ k"
proof
  assume "builtin = 2 ^ k"
  with assms(1) have u: "inotify_builtin_constants constants = Inr (2 ^ k)"
    by simp
  from flag_of_pow_union [OF u assms(2)] flag_of_pow_union [OF u assms(3)] assms(4-6)
  show False
    by simp
qed

text \<open>
  C7. For a table of flags (non-negative values) that defines two different non-zero
  flags \<open>a\<close> and \<open>b\<close>, the startup code sets \<open>IN_LINK_CHANGED\<close> to a power of two that is
  strictly greater than the union of the table's values, is the lowest such power, and
  shares no bit with any flag of the table.
\<close>

theorem link_changed_bit_is_free:
  assumes "inotify_builtin_constants constants = Inr builtin"
    and "list_all (\<lambda>c. 0 \<le> c) (map snd constants)"
    and "a \<in> set (map snd constants)" and "b \<in> set (map snd constants)"
    and "a \<noteq> 0" and "b \<noteq> 0" and "a \<noteq> b"
  shows "\<exists>n. startup constants inotify =
               Some (Inr (AList.update ''IN_LINK_CHANGED'' (2 ^ n) constants,
                          inotify\<lparr>IN_LINK_CHANGED := 2 ^ n\<rparr>)) \<and>
             builtin < 2 ^ n \<and>
             (\<forall>m. builtin < 2 ^ m \<longrightarrow> (2::int) ^ n \<le> 2 ^ m) \<and>
             list_all (\<lambda>c. c AND 2 ^ n = 0) (map snd constants)"
proof -
  from link_changed_bit_least obtain n where
    n: "link_changed_bit builtin = Some (2 ^ n)" and le: "builtin \<le> 2 ^ n" and
    low: "n = 0 \<or> 2 ^ (n - 1) < builtin"
    by blast
  from distinct_flags_not_pow [OF assms(1) assms(3-7)] have "builtin \<noteq> 2 ^ n" .
  with le have lt: "builtin < 2 ^ n"
    by simp
  have least: "(2::int) ^ n \<le> 2 ^ m" if "builtin < 2 ^ m" for m
  proof (rule ccontr)
    assume "\<not> (2::int) ^ n \<le> 2 ^ m"
    then have "m < n"
      by (simp add: not_le)
    then have "m \<le> n - 1" and "n \<noteq> 0"
      by simp_all
    then have "(2::int) ^ m \<le> 2 ^ (n - 1)"
      by (simp add: power_increasing)
    moreover from low \<open>n \<noteq> 0\<close> have "2 ^ (n - 1) < builtin"
      by simp
    ultimately show False
      using that by linarith
  qed
  from builtin_bounds [OF assms(1,2)] have
    nonneg: "list_all (\<lambda>c. 0 \<le> c) (map snd constants)" and
    bound: "list_all (\<lambda>c. c \<le> builtin) (map snd constants)"
    using assms(2) by simp_all
  have "list_all (\<lambda>c. c AND 2 ^ n = 0) (map snd constants)"
    unfolding list_all_iff
  proof
    fix c
    assume c: "c \<in> set (map snd constants)"
    with nonneg bound have "0 \<le> c" and "c \<le> builtin"
      by (auto simp: list_all_iff)
    with lt show "c AND 2 ^ n = 0"
      by (intro and_pow_zero) simp_all
  qed
  with n lt least assms(1) show ?thesis
    by (intro exI [of _ n]) (simp add: startup_def)
qed

lemma example_builtin:
  "inotify_builtin_constants example_constants = Inr 0xE700EFFF"
  by (simp add: inotify_builtin_constants_def example_constants_def)

lemma example_link_changed: "link_changed_bit 0xE700EFFF = Some 0x100000000"
  by (simp add: link_changed_bit_def shift_until.simps)

theorem link_changed_bit_is_free_witness:
  "inotify_builtin_constants example_constants = Inr 0xE700EFFF \<and>
   list_all (\<lambda>c. 0 \<le> c) (map snd example_constants) \<and>
   (1::int) \<in> set (map snd example_constants) \<and>
   (2::int) \<in> set (map snd example_constants) \<and>
   startup example_constants (example_inotify\<lparr>IN_LINK_CHANGED := 0\<rparr>) =
     Some (Inr (AList.update ''IN_LINK_CHANGED'' 0x100000000 example_constants, example_inotify)) \<and>
   (0xE700EFFF::int) < 0x100000000 \<and>
   list_all (\<lambda>c. c AND 0x100000000 = 0) (map snd example_constants)"
proof -
  have h2: "list_all (\<lambda>c. 0 \<le> c) (map snd example_constants)"
    by (simp add: example_constants_def)
  have h3: "(1::int) \<in> set (map snd example_constants)"
    and h4: "(2::int) \<in> set (map snd example_constants)"
    by (simp_all add: example_constants_def)
  have h5: "(1::int) \<noteq> 0" and h6: "(2::int) \<noteq> 0" and h7: "(1::int) \<noteq> 2"
    by simp_all
  from link_changed_bit_is_free [OF example_builtin h2 h3 h4 h5 h6 h7,
      of "example_inotify\<lparr>IN_LINK_CHANGED := 0\<rparr>"]
  obtain n where
    s: "startup example_constants (example_inotify\<lparr>IN_LINK_CHANGED := 0\<rparr>) =
          Some (Inr (AList.update ''IN_LINK_CHANGED'' (2 ^ n) example_constants,
                     example_inotify\<lparr>IN_LINK_CHANGED := 0, IN_LINK_CHANGED := 2 ^ n\<rparr>))" and
    f: "list_all (\<lambda>c. c AND 2 ^ n = 0) (map snd example_constants)"
    by auto
  have "startup example_constants (example_inotify\<lparr>IN_LINK_CHANGED := 0\<rparr>) =
          Some (Inr (AList.update ''IN_LINK_CHANGED'' 0x100000000 example_constants,
                     example_inotify\<lparr>IN_LINK_CHANGED := 0, IN_LINK_CHANGED := 0x100000000\<rparr>))"
    by (simp add: startup_def example_builtin example_link_changed)
  with s have n: "(2::int) ^ n = 0x100000000"
    by (simp add: example_inotify_def)
  from s f h2 h3 h4 example_builtin show ?thesis
    unfolding n by (simp add: example_inotify_def)
qed

subsection \<open>The path of an event\<close>






lemma absolute_path_loses_root:
  "path_join_star (normpath ''/tmp/f'') = Inr ''tmp/f''"
  by (simp add: path_join_star_def normpath_def sep_def startswith_sep_def endswith_sep_def)





subsection \<open>Buffered reads\<close>

text \<open>The dispatch of raw events touches neither the pending buffer nor the source.\<close>

lemma Descriptor_handle_event_keeps:
  "Descriptor_handle_event inotify self d evt = (self1, r) \<Longrightarrow>
   buffer self1 = buffer self \<and> lowreads self1 = lowreads self"
  by (auto simp: Descriptor_handle_event_def Watcher_removewatch_def
           split: sum.splits if_splits option.splits)

lemma dispatch_keeps:
  "dispatch inotify self raws = (self1, r) \<Longrightarrow>
   buffer self1 = buffer self \<and> lowreads self1 = lowreads self"
proof (induction raws arbitrary: self self1 r)
  case Nil
  then show ?case by simp
next
  case (Cons evt evts)
  show ?case
  proof (cases "map_of (watchdescriptors self) (raw_wd evt)")
    case None
    with Cons.prems show ?thesis by simp
  next
    case (Some d)
    obtain s1 r1 where h: "Descriptor_handle_event inotify self d evt = (s1, r1)"
      by (cases "Descriptor_handle_event inotify self d evt")
    note k1 = Descriptor_handle_event_keeps [OF h]
    show ?thesis
    proof (cases r1)
      case (Inl e)
      with Cons.prems Some h k1 show ?thesis by simp
    next
      case (Inr es)
      obtain s2 r2 where d2: "dispatch inotify s1 evts = (s2, r2)"
        by (cases "dispatch inotify s1 evts")
      from Cons.IH [OF d2] k1 have "buffer s2 = buffer self \<and> lowreads s2 = lowreads self"
        by simp
      with Cons.prems Some h Inr d2 show ?thesis
        by (auto split: sum.splits)
    qed
  qed
qed

lemma read_fresh:
  assumes "buffer self = []" and "watchdescriptors self \<noteq> []"
  shows "lowreads (fst (Watcher_read inotify env self block bufsize store_events)) =
           Suc (lowreads self)"
proof -
  let ?bs = "if \<not> block then Some 0 else if bufsize = Some 0 then None else bufsize"
  let ?s0 = "self\<lparr>lowreads := Suc (lowreads self)\<rparr>"
  show ?thesis
  proof (cases "inotify_read env (lowreads self) ?bs")
    case (Inl e)
    with assms show ?thesis
      by (simp add: Watcher_read_def)
  next
    case (Inr raws)
    obtain s1 r where d: "dispatch inotify ?s0 raws = (s1, r)"
      by (cases "dispatch inotify ?s0 raws")
    from dispatch_keeps [OF d] have "lowreads s1 = Suc (lowreads self)"
      by simp
    with assms Inr d show ?thesis
      by (cases r) (simp_all add: Watcher_read_def)
  qed
qed

text \<open>
  C9, as amended. Let the pending buffer be empty and the registry not, and let the
  low-level read and the dispatch of what it returns succeed with the events \<open>events\<close>.
  Then \<^verbatim>\<open>read(store_events=True)\<close> performs that one low-level read, leaves \<open>events\<close> in
  the buffer and returns nothing. If \<open>events\<close> is not empty, the next \<^verbatim>\<open>read\<close>, whatever
  its arguments, returns exactly \<open>events\<close> and empties the buffer without a low-level read.
  A further \<^verbatim>\<open>read\<close> on the drained buffer, if the registry is still not empty, performs a
  new low-level read.
\<close>

theorem read_store_then_read:
  assumes "buffer self = []" and "watchdescriptors self \<noteq> []"
    and "inotify_read env (lowreads self)
           (if \<not> block then Some 0 else if bufsize = Some 0 then None else bufsize) = Inr raws"
    and "dispatch inotify (self\<lparr>lowreads := Suc (lowreads self)\<rparr>) raws = (self1, Inr events)"
  shows "Watcher_read inotify env self block bufsize True = (self1\<lparr>buffer := events\<rparr>, Inr None) \<and>
         lowreads self1 = Suc (lowreads self) \<and>
         (events \<noteq> [] \<longrightarrow>
            Watcher_read inotify env (self1\<lparr>buffer := events\<rparr>) block' bufsize' store' =
              (self1\<lparr>buffer := []\<rparr>, Inr (Some events))) \<and>
         (watchdescriptors self1 \<noteq> [] \<longrightarrow>
            lowreads (fst (Watcher_read inotify env (self1\<lparr>buffer := []\<rparr>) block'' bufsize''
                             store'')) = Suc (lowreads self1))"
proof -
  from dispatch_keeps [OF assms(4)] assms(1) have
    k: "buffer self1 = []" "lowreads self1 = Suc (lowreads self)"
    by simp_all
  from assms(1-4) k have
    "Watcher_read inotify env self block bufsize True = (self1\<lparr>buffer := events\<rparr>, Inr None)"
    by (simp add: Watcher_read_def)
  moreover have
    "Watcher_read inotify env (self1\<lparr>buffer := events\<rparr>) block' bufsize' store' =
       (self1\<lparr>buffer := []\<rparr>, Inr (Some events))"
    if "events \<noteq> []"
    using that by (simp add: Watcher_read_def)
  moreover have
    "lowreads (fst (Watcher_read inotify env (self1\<lparr>buffer := []\<rparr>) block'' bufsize'' store'')) =
       Suc (lowreads self1)"
    if "watchdescriptors self1 \<noteq> []"
    using read_fresh [of "self1\<lparr>buffer := []\<rparr>"] that by simp
  ultimately show ?thesis
    using k by blast
qed

lemma modify_dispatch:
  "inotify_read modify_env (lowreads watching_f) None =
     Inr [\<lparr>raw_mask = 0x2, raw_cookie = 0, raw_name = None, raw_wd = 1\<rparr>]"
  "dispatch example_inotify (watching_f\<lparr>lowreads := Suc (lowreads watching_f)\<rparr>)
     [\<lparr>raw_mask = 0x2, raw_cookie = 0, raw_name = None, raw_wd = 1\<rparr>] =
     (watching_f\<lparr>lowreads := 1\<rparr>, Inr [modify_event])"
  by (simp_all add: watching_f_eq(2) modify_env_def example_env_def model_defs
        example_inotify_def modify_event_def)

theorem read_store_then_read_witness:
  "buffer watching_f = [] \<and> watchdescriptors watching_f \<noteq> [] \<and>
   Watcher_read example_inotify modify_env watching_f True None True =
     (watching_f\<lparr>lowreads := 1, buffer := [modify_event]\<rparr>, Inr None) \<and>
   Watcher_read example_inotify modify_env (watching_f\<lparr>lowreads := 1, buffer := [modify_event]\<rparr>)
       True None False =
     (watching_f\<lparr>lowreads := 1, buffer := []\<rparr>, Inr (Some [modify_event])) \<and>
   watchdescriptors (watching_f\<lparr>lowreads := 1\<rparr>) \<noteq> [] \<and>
   lowreads (fst (Watcher_read example_inotify modify_env
                    (watching_f\<lparr>lowreads := 1, buffer := []\<rparr>) True None False)) = 2"
proof -
  have h1: "buffer watching_f = []" and h2: "watchdescriptors watching_f \<noteq> []"
    by (simp_all add: watching_f_eq(2))
  have h3: "inotify_read modify_env (lowreads watching_f)
              (if \<not> True then Some 0 else if None = Some 0 then None else None) =
              Inr [\<lparr>raw_mask = 0x2, raw_cookie = 0, raw_name = None, raw_wd = 1\<rparr>]"
    using modify_dispatch(1) by simp
  have h5: "[modify_event] \<noteq> []"
    by simp
  have h6: "watchdescriptors (watching_f\<lparr>lowreads := 1\<rparr>) \<noteq> []"
    using h2 by simp
  from read_store_then_read [OF h1 h2 h3 modify_dispatch(2),
      of True None False True None False] h1 h2 h5 h6
  show ?thesis
    by simp
qed

text \<open>
  C9 as stated fails. With a pending buffer, \<^verbatim>\<open>read(store_events=True)\<close> returns the
  buffered events instead of nothing, appends nothing and reads nothing; the read after
  the buffer is drained raises, without a low-level read, when the registry has become
  empty; and after a
  \<^verbatim>\<open>read(store_events=True)\<close> that collected no event the next \<^verbatim>\<open>read\<close> does issue a
  low-level read.
\<close>

theorem read_store_with_pending_buffer:
  "buffer stale_watcher \<noteq> [] \<and>
   Watcher_read example_inotify example_env stale_watcher True None True =
     (stale_watcher\<lparr>buffer := []\<rparr>, Inr (Some (buffer stale_watcher))) \<and>
   lowreads (stale_watcher\<lparr>buffer := []\<rparr>) = lowreads stale_watcher \<and>
   Watcher_read example_inotify example_env (stale_watcher\<lparr>buffer := []\<rparr>) True None False =
     (stale_watcher\<lparr>buffer := []\<rparr>, Inl (NameError ''NoFilesException'')) \<and>
   Watcher_read example_inotify modify_env (watching_f\<lparr>lowreads := 1\<rparr>) False None True =
     (watching_f\<lparr>lowreads := 2\<rparr>, Inr None) \<and>
   Watcher_read example_inotify modify_env (watching_f\<lparr>lowreads := 2\<rparr>) False None False =
     (watching_f\<lparr>lowreads := 3\<rparr>, Inr (Some []))"
  by (simp add: stale_watcher_eq watching_f_eq(2) Watcher_read_def modify_env_def
        example_env_def)

end
